theory Spec2Isabelle
  imports Main "HOL-Library.AList"
begin

section \<open>Data model\<close>

text \<open>
  An \<open>amqp091.Table\<close> is a Go map from strings to dynamically typed values. An
  allocated map is an association list with pairwise distinct keys; a map variable may
  also be \<open>nil\<close>, which is \<open>None\<close>. Reading a \<open>nil\<close> map yields the zero value,
  writing to it panics.
\<close>

datatype amqp_value = VString string | VInt int | VBool bool | VNil

type_synonym Table = "(string \<times> amqp_value) list"

datatype panic = AssignmentToNilMap | NilDereference

type_synonym error = string

subsection \<open>internal: constants\<close>

definition TracerName :: string where
  "TracerName = ''github.com/startower-observability/orb''"

definition MessagingSystem :: string where
  "MessagingSystem = ''messaging.system''"

definition MessagingDestinationKind :: string where
  "MessagingDestinationKind = ''messaging.destination_kind''"

definition MessagingDestination :: string where
  "MessagingDestination = ''messaging.destination''"

definition MessagingRabbitMQRoutingKey :: string where
  "MessagingRabbitMQRoutingKey = ''messaging.rabbitmq.routing_key''"

definition MessagingOperation :: string where
  "MessagingOperation = ''messaging.operation''"

definition MessagingMessageID :: string where
  "MessagingMessageID = ''messaging.message_id''"

definition MessagingConversationID :: string where
  "MessagingConversationID = ''messaging.conversation_id''"

definition SystemRabbitMQ :: string where
  "SystemRabbitMQ = ''rabbitmq''"

definition DestinationKindQueue :: string where
  "DestinationKindQueue = ''queue''"

definition DestinationKindTopic :: string where
  "DestinationKindTopic = ''topic''"

definition OperationPublish :: string where
  "OperationPublish = ''publish''"

definition OperationReceive :: string where
  "OperationReceive = ''receive''"

definition OperationProcess :: string where
  "OperationProcess = ''process''"

lemmas internal_consts =
  MessagingSystem_def MessagingDestinationKind_def MessagingDestination_def
  MessagingRabbitMQRoutingKey_def MessagingOperation_def MessagingMessageID_def
  MessagingConversationID_def SystemRabbitMQ_def DestinationKindQueue_def
  DestinationKindTopic_def OperationPublish_def OperationReceive_def

subsection \<open>internal: HeaderCarrier\<close>

text \<open>
  \<open>type HeaderCarrier amqp091.Table\<close>. \<open>Get\<close> uses the comma-ok forms of the map
  read and of the type assertion, so it has no failing branch; \<open>Set\<close> assigns into the
  map, which panics on a \<open>nil\<close> map; \<open>Keys\<close> appends every key met by \<open>range\<close>.
\<close>

text \<open>The map read \<open>val, ok := hc[key]\<close>: \<open>None\<close> when \<open>ok\<close> is false.\<close>

definition index_map :: "Table option \<Rightarrow> string \<Rightarrow> amqp_value option" where
  "index_map hc key = (case hc of None \<Rightarrow> None | Some t \<Rightarrow> map_of t key)"

definition HeaderCarrier_Get :: "Table option \<Rightarrow> string \<Rightarrow> string" where
  "HeaderCarrier_Get hc key =
     (case index_map hc key of
        Some val \<Rightarrow> (case val of VString str \<Rightarrow> str | _ \<Rightarrow> '''')
      | None \<Rightarrow> '''')"

definition HeaderCarrier_Set :: "Table option \<Rightarrow> string \<Rightarrow> string \<Rightarrow> panic + Table option" where
  "HeaderCarrier_Set hc key val =
     (case hc of
        None \<Rightarrow> Inl AssignmentToNilMap
      | Some t \<Rightarrow> Inr (Some (AList.update key (VString val) t)))"

definition HeaderCarrier_Keys :: "Table option \<Rightarrow> string list" where
  "HeaderCarrier_Keys hc =
     (case hc of
        None \<Rightarrow> []
      | Some t \<Rightarrow> fold (\<lambda>(k, _) keys. keys @ [k]) t [])"

text \<open>A sequence of \<open>Set\<close> calls on one carrier, in order.\<close>

fun set_all :: "(string \<times> string) list \<Rightarrow> Table option \<Rightarrow> panic + Table option" where
  "set_all [] hc = Inr hc"
| "set_all ((k, v) # kvs) hc =
     (case HeaderCarrier_Set hc k v of
        Inl e \<Rightarrow> Inl e
      | Inr hc' \<Rightarrow> set_all kvs hc')"

subsection \<open>internal: attribute builders\<close>

type_synonym KeyValue = "string \<times> string"

definition attribute_String :: "string \<Rightarrow> string \<Rightarrow> KeyValue" where
  "attribute_String k v = (k, v)"

definition GetCommonAttributes :: "string \<Rightarrow> string \<Rightarrow> KeyValue list" where
  "GetCommonAttributes exchange routingKey =
     (let attrs = [attribute_String MessagingSystem SystemRabbitMQ];
          attrs =
            (if exchange \<noteq> '''' then
               (let attrs = attrs @ [attribute_String MessagingDestination exchange];
                    attrs = attrs @ [attribute_String MessagingDestinationKind DestinationKindTopic]
                in attrs)
             else
               (let attrs = attrs @ [attribute_String MessagingDestinationKind DestinationKindQueue]
                in if routingKey \<noteq> ''''
                   then attrs @ [attribute_String MessagingDestination routingKey]
                   else attrs));
          attrs =
            (if routingKey \<noteq> ''''
             then attrs @ [attribute_String MessagingRabbitMQRoutingKey routingKey]
             else attrs)
      in attrs)"


subsection \<open>Messages and deliveries of the AMQP client\<close>

text \<open>
  \<open>amqp091.Publishing\<close> and \<open>amqp091.Delivery\<close>, with the fields this library reads
  or writes. The broker's answers to \<open>Ack\<close> and \<open>Nack\<close> belong to the delivery's
  acknowledger; an error is its message, \<open>None\<close> is \<open>nil\<close>.
\<close>

record Publishing =
  p_Headers :: "Table option"
  p_ContentType :: string
  p_CorrelationId :: string
  p_MessageId :: string
  p_Body :: string

record Acknowledger =
  ack_reply :: "bool \<Rightarrow> error option"
  nack_reply :: "bool \<Rightarrow> bool \<Rightarrow> error option"

record Delivery =
  d_Acknowledger :: Acknowledger
  d_Headers :: "Table option"
  d_CorrelationId :: string
  d_MessageId :: string
  d_RoutingKey :: string
  d_Body :: string

definition Delivery_Ack :: "Delivery \<Rightarrow> bool \<Rightarrow> error option" where
  "Delivery_Ack d multiple = ack_reply (d_Acknowledger d) multiple"

definition Delivery_Nack :: "Delivery \<Rightarrow> bool \<Rightarrow> bool \<Rightarrow> error option" where
  "Delivery_Nack d multiple requeue = nack_reply (d_Acknowledger d) multiple requeue"

text \<open>The acknowledgments a procedure has issued on a delivery, in order.\<close>

datatype ack_call = AckCall bool | NackCall bool bool

fun is_ack :: "ack_call \<Rightarrow> bool" where
  "is_ack (AckCall _) = True"
| "is_ack (NackCall _ _) = False"

fun is_nack :: "ack_call \<Rightarrow> bool" where
  "is_nack (AckCall _) = False"
| "is_nack (NackCall _ _) = True"

subsection \<open>Contexts, spans and propagators of the tracing SDK\<close>

text \<open>
  A context carries at most one span context. A span is the record of what has been
  done to it: the errors recorded in order, its status, whether it has ended. A tracer
  is the function behind \<open>Tracer.Start\<close>. A text map propagator reaches a carrier
  through \<open>Set\<close> when it injects and through \<open>Get\<close> when it extracts: \<open>Inject\<close> is
  the sequence of \<open>Set\<close> calls it makes for a context, \<open>Extract\<close> a function of the
  parent context and of the carrier's \<open>Get\<close>, \<open>Fields\<close> the keys it uses. Tracer,
  propagator, handler, formatter and enricher are code of the caller or of the SDK: they
  are parameters, taken to return and to leave the message or delivery they are handed
  as it is.
\<close>

record SpanContext =
  TraceID :: string
  SpanID :: string
  Remote :: bool

record Context =
  ctx_span :: "SpanContext option"
  ctx_values :: "(string \<times> string) list"

definition trace_ids :: "Context \<Rightarrow> (string \<times> string) option" where
  "trace_ids ctx = map_option (\<lambda>sc. (TraceID sc, SpanID sc)) (ctx_span ctx)"

definition has_valid_trace :: "Context \<Rightarrow> bool" where
  "has_valid_trace ctx =
     (case ctx_span ctx of None \<Rightarrow> False | Some sc \<Rightarrow> TraceID sc \<noteq> '''' \<and> SpanID sc \<noteq> '''')"

record TextMapPropagator =
  Inject :: "Context \<Rightarrow> (string \<times> string) list"
  Extract :: "Context \<Rightarrow> (string \<Rightarrow> string) \<Rightarrow> Context"
  Fields :: "string list"

datatype SpanKind = SpanKindInternal | SpanKindServer | SpanKindClient | SpanKindProducer | SpanKindConsumer

datatype SpanStartOption = WithSpanKind SpanKind | WithAttributes "KeyValue list"

datatype Code = codes_Unset | codes_Error | codes_Ok

record Span =
  span_name :: string
  span_options :: "SpanStartOption list"
  span_parent :: Context
  span_errors :: "error list"
  span_status :: "Code \<times> string"
  span_ended :: bool

definition Span_RecordError :: "Span \<Rightarrow> error \<Rightarrow> Span" where
  "Span_RecordError span err = span\<lparr>span_errors := span_errors span @ [err]\<rparr>"

definition Span_SetStatus :: "Span \<Rightarrow> Code \<Rightarrow> string \<Rightarrow> Span" where
  "Span_SetStatus span code description = span\<lparr>span_status := (code, description)\<rparr>"

definition Span_End :: "Span \<Rightarrow> Span" where
  "Span_End span = span\<lparr>span_ended := True\<rparr>"

type_synonym Tracer = "Context \<Rightarrow> string \<Rightarrow> SpanStartOption list \<Rightarrow> Context \<times> Span"

text \<open>The process-wide state of the SDK that the library reads: \<open>otel.GetTextMapPropagator()\<close>
  and \<open>otel.Tracer(name)\<close>.\<close>

record otel =
  GetTextMapPropagator :: TextMapPropagator
  otel_Tracer :: "string \<Rightarrow> Tracer"

subsection \<open>internal: propagation and span status\<close>

definition InjectContext :: "otel \<Rightarrow> Context \<Rightarrow> Table option \<Rightarrow> panic + Table option" where
  "InjectContext g ctx headers =
     (if headers = None then Inr headers
      else set_all (Inject (GetTextMapPropagator g) ctx) headers)"

definition ExtractContext :: "otel \<Rightarrow> Context \<Rightarrow> Table option \<Rightarrow> Context" where
  "ExtractContext g ctx headers =
     (if headers = None then ctx
      else Extract (GetTextMapPropagator g) ctx (HeaderCarrier_Get headers))"

definition SafeSetSpanStatus :: "Span option \<Rightarrow> error option \<Rightarrow> Span option" where
  "SafeSetSpanStatus span err =
     (case span of
        None \<Rightarrow> None
      | Some s \<Rightarrow>
          (case err of
             Some e \<Rightarrow> Some (Span_SetStatus (Span_RecordError s e) codes_Error e)
           | None \<Rightarrow> Some (Span_SetStatus s codes_Ok '''')))"

definition GetPublishAttributes :: "string \<Rightarrow> string \<Rightarrow> Publishing \<Rightarrow> KeyValue list" where
  "GetPublishAttributes exchange routingKey msg =
     (let attrs = GetCommonAttributes exchange routingKey;
          attrs = attrs @ [attribute_String MessagingOperation OperationPublish];
          attrs =
            (if p_MessageId msg \<noteq> ''''
             then attrs @ [attribute_String MessagingMessageID (p_MessageId msg)]
             else attrs);
          attrs =
            (if p_CorrelationId msg \<noteq> ''''
             then attrs @ [attribute_String MessagingConversationID (p_CorrelationId msg)]
             else attrs)
      in attrs)"

definition GetConsumeAttributes :: "string \<Rightarrow> Delivery \<Rightarrow> KeyValue list" where
  "GetConsumeAttributes queueName delivery =
     (let attrs =
            [attribute_String MessagingSystem SystemRabbitMQ,
             attribute_String MessagingDestinationKind DestinationKindQueue,
             attribute_String MessagingOperation OperationReceive];
          attrs =
            (if queueName \<noteq> ''''
             then attrs @ [attribute_String MessagingDestination queueName]
             else attrs);
          attrs =
            (if d_RoutingKey delivery \<noteq> ''''
             then attrs @ [attribute_String MessagingRabbitMQRoutingKey (d_RoutingKey delivery)]
             else attrs);
          attrs =
            (if d_MessageId delivery \<noteq> ''''
             then attrs @ [attribute_String MessagingMessageID (d_MessageId delivery)]
             else attrs);
          attrs =
            (if d_CorrelationId delivery \<noteq> ''''
             then attrs @ [attribute_String MessagingConversationID (d_CorrelationId delivery)]
             else attrs)
      in attrs)"

subsection \<open>instrumentation: Propagator\<close>

text \<open>
  \<open>type Propagator struct {}\<close>: no field, so its methods never read the receiver.
  \<open>ExtractFromDelivery\<close> takes a pointer to a delivery and reads its \<open>Headers\<close> field
  with no check: on a \<open>nil\<close> pointer, \<open>None\<close>, it panics.
\<close>

datatype Propagator = Propagator

definition NewPropagator :: Propagator where
  "NewPropagator = Propagator"

definition DefaultPropagator :: Propagator where
  "DefaultPropagator = NewPropagator"

definition Propagator_InjectToPublishing ::
  "otel \<Rightarrow> Propagator option \<Rightarrow> Context \<Rightarrow> Publishing \<Rightarrow> panic + Publishing" where
  "Propagator_InjectToPublishing g p ctx publishing =
     (let publishing =
            (if p_Headers publishing = None
             then publishing\<lparr>p_Headers := Some []\<rparr>
             else publishing)
      in case InjectContext g ctx (p_Headers publishing) of
           Inl e \<Rightarrow> Inl e
         | Inr headers \<Rightarrow> Inr (publishing\<lparr>p_Headers := headers\<rparr>))"

definition Propagator_ExtractFromDelivery ::
  "otel \<Rightarrow> Propagator option \<Rightarrow> Context \<Rightarrow> Delivery option \<Rightarrow> panic + Context" where
  "Propagator_ExtractFromDelivery g p ctx delivery =
     (case delivery of
        None \<Rightarrow> Inl NilDereference
      | Some d \<Rightarrow> Inr (ExtractContext g ctx (d_Headers d)))"

definition Propagator_InjectToHeaders ::
  "otel \<Rightarrow> Propagator option \<Rightarrow> Context \<Rightarrow> Table option \<Rightarrow> panic + Table option" where
  "Propagator_InjectToHeaders g p ctx headers = InjectContext g ctx headers"

definition Propagator_ExtractFromHeaders ::
  "otel \<Rightarrow> Propagator option \<Rightarrow> Context \<Rightarrow> Table option \<Rightarrow> Context" where
  "Propagator_ExtractFromHeaders g p ctx headers = ExtractContext g ctx headers"

definition InjectToPublishing :: "otel \<Rightarrow> Context \<Rightarrow> Publishing \<Rightarrow> panic + Publishing" where
  "InjectToPublishing g ctx publishing =
     Propagator_InjectToPublishing g (Some DefaultPropagator) ctx publishing"

definition ExtractFromDelivery :: "otel \<Rightarrow> Context \<Rightarrow> Delivery option \<Rightarrow> panic + Context" where
  "ExtractFromDelivery g ctx delivery =
     Propagator_ExtractFromDelivery g (Some DefaultPropagator) ctx delivery"

subsection \<open>instrumentation: Consumer\<close>

text \<open>
  The fields of a configuration are pointers, interfaces and functions: each may be
  \<open>nil\<close>. Calling a \<open>nil\<close> function or a method of a \<open>nil\<close> interface panics; a
  method of the field-less \<open>Propagator\<close> does not. The per-delivery procedure holds its
  delivery by value and hands out its address, which is never \<open>nil\<close>; \<open>WrapDelivery\<close>
  is taken on a delivery that exists.
\<close>

type_synonym MessageHandler = "Context \<Rightarrow> Delivery \<Rightarrow> error option"

record ConsumerConfig =
  cc_Tracer :: "Tracer option"
  cc_Propagator :: "Propagator option"
  cc_SpanNameFormatter :: "(string \<Rightarrow> Delivery \<Rightarrow> string) option"
  cc_AttributeEnricher :: "(Context \<Rightarrow> string \<Rightarrow> Delivery \<Rightarrow> SpanStartOption list) option"

record Consumer =
  c_config :: ConsumerConfig

definition defaultConsumeSpanName :: "string \<Rightarrow> Delivery \<Rightarrow> string" where
  "defaultConsumeSpanName queueName delivery =
     (if queueName \<noteq> '''' then queueName @ '' receive''
      else if d_RoutingKey delivery \<noteq> '''' then d_RoutingKey delivery @ '' receive''
      else ''rabbitmq receive'')"

definition NewConsumer :: "otel \<Rightarrow> ConsumerConfig \<Rightarrow> Consumer" where
  "NewConsumer g config =
     (let config =
            (if cc_Tracer config = None
             then config\<lparr>cc_Tracer := Some (otel_Tracer g TracerName)\<rparr>
             else config);
          config =
            (if cc_Propagator config = None
             then config\<lparr>cc_Propagator := Some DefaultPropagator\<rparr>
             else config);
          config =
            (if cc_SpanNameFormatter config = None
             then config\<lparr>cc_SpanNameFormatter := Some defaultConsumeSpanName\<rparr>
             else config)
      in \<lparr>c_config = config\<rparr>)"

definition NewDefaultConsumer :: "otel \<Rightarrow> Consumer" where
  "NewDefaultConsumer g =
     NewConsumer g \<lparr>cc_Tracer = None, cc_Propagator = None,
                    cc_SpanNameFormatter = None, cc_AttributeEnricher = None\<rparr>"

text \<open>
  What one run of the per-delivery procedure leaves behind: the span it started, as it
  is when the procedure returns, and the acknowledgments it issued on the delivery.
\<close>

record delivery_effects =
  de_span :: "Span option"
  de_acks :: "ack_call list"

definition call_handler :: "MessageHandler option \<Rightarrow> Context \<Rightarrow> Delivery \<Rightarrow> error option" where
  "call_handler handler ctx delivery =
     (case handler of None \<Rightarrow> None | Some h \<Rightarrow> h ctx delivery)"

definition Consumer_processDelivery ::
  "otel \<Rightarrow> Consumer \<Rightarrow> Context \<Rightarrow> string \<Rightarrow> Delivery \<Rightarrow> MessageHandler option \<Rightarrow> bool
     \<Rightarrow> panic + delivery_effects" where
  "Consumer_processDelivery g c parentCtx queueName delivery handler autoAck =
     (case Propagator_ExtractFromDelivery g (cc_Propagator (c_config c)) parentCtx (Some delivery) of
        Inl e \<Rightarrow> Inl e
      | Inr ctx \<Rightarrow>
     (case cc_SpanNameFormatter (c_config c) of
           None \<Rightarrow> Inl NilDereference
         | Some formatter \<Rightarrow>
     (let spanName = formatter queueName delivery;
          spanOpts = [WithSpanKind SpanKindConsumer];
          attrs = GetConsumeAttributes queueName delivery;
          spanOpts = fold (\<lambda>attr opts. opts @ [WithAttributes [attr]]) attrs spanOpts;
          spanOpts =
            (case cc_AttributeEnricher (c_config c) of
               None \<Rightarrow> spanOpts
             | Some enricher \<Rightarrow> spanOpts @ enricher ctx queueName delivery)
      in (case cc_Tracer (c_config c) of
           None \<Rightarrow> Inl NilDereference
         | Some tracer \<Rightarrow>
     (let (ctx, span) = tracer ctx spanName spanOpts;
          err = call_handler handler ctx delivery;
          (span, err, acks) =
            (if \<not> autoAck then
               (case err of
                  Some e \<Rightarrow>
                    (case Delivery_Nack delivery False True of
                       Some nackErr \<Rightarrow>
                         (Span_RecordError span (''failed to nack message: '' @ nackErr),
                          err, [NackCall False True])
                     | None \<Rightarrow> (span, err, [NackCall False True]))
                | None \<Rightarrow>
                    (case Delivery_Ack delivery False of
                       Some ackErr \<Rightarrow>
                         (Span_RecordError span (''failed to ack message: '' @ ackErr),
                          Some ackErr, [AckCall False])
                     | None \<Rightarrow> (span, err, [AckCall False])))
             else (span, err, []));
          span = SafeSetSpanStatus (Some span) err
      in Inr \<lparr>de_span = map_option Span_End span, de_acks = acks\<rparr>)))))"

definition Consumer_ProcessDelivery ::
  "otel \<Rightarrow> Consumer \<Rightarrow> Context \<Rightarrow> string \<Rightarrow> Delivery \<Rightarrow> MessageHandler option
     \<Rightarrow> panic + (error option \<times> delivery_effects)" where
  "Consumer_ProcessDelivery g c ctx queueName delivery handler =
     (case Consumer_processDelivery g c ctx queueName delivery handler False of
        Inl e \<Rightarrow> Inl e
      | Inr effects \<Rightarrow> Inr (None, effects))"

definition Consumer_WrapDelivery ::
  "otel \<Rightarrow> Consumer \<Rightarrow> Context \<Rightarrow> string \<Rightarrow> Delivery \<Rightarrow> panic + (Context \<times> Span)" where
  "Consumer_WrapDelivery g c ctx queueName delivery =
     (case Propagator_ExtractFromDelivery g (cc_Propagator (c_config c)) ctx (Some delivery) of
        Inl e \<Rightarrow> Inl e
      | Inr ctx \<Rightarrow>
     (case cc_SpanNameFormatter (c_config c) of
           None \<Rightarrow> Inl NilDereference
         | Some formatter \<Rightarrow>
     (let spanName = formatter queueName delivery;
          spanOpts = [WithSpanKind SpanKindConsumer];
          attrs = GetConsumeAttributes queueName delivery;
          spanOpts = fold (\<lambda>attr opts. opts @ [WithAttributes [attr]]) attrs spanOpts;
          spanOpts =
            (case cc_AttributeEnricher (c_config c) of
               None \<Rightarrow> spanOpts
             | Some enricher \<Rightarrow> spanOpts @ enricher ctx queueName delivery)
      in (case cc_Tracer (c_config c) of
           None \<Rightarrow> Inl NilDereference
         | Some tracer \<Rightarrow> Inr (tracer ctx spanName spanOpts)))))"

text \<open>
  The channel of the AMQP client, by what its calls answer. \<open>ConsumeWithHandler\<close> hands
  the deliveries of the stream to a goroutine that processes them one at a time, in
  order; the model is the list of the runs over a finite stream.
\<close>

type_synonym DeferredConfirmation = nat

record Channel =
  ch_Publish :: "string \<Rightarrow> string \<Rightarrow> bool \<Rightarrow> bool \<Rightarrow> Publishing \<Rightarrow> error option"
  ch_PublishWithDeferredConfirmWithContext ::
    "Context \<Rightarrow> string \<Rightarrow> string \<Rightarrow> bool \<Rightarrow> bool \<Rightarrow> Publishing
       \<Rightarrow> DeferredConfirmation option \<times> error option"
  ch_ConsumeWithContext ::
    "Context \<Rightarrow> string \<Rightarrow> string \<Rightarrow> bool \<Rightarrow> bool \<Rightarrow> bool \<Rightarrow> bool \<Rightarrow> Table option
       \<Rightarrow> Delivery list \<times> error option"

definition Consumer_ConsumeWithHandler ::
  "otel \<Rightarrow> Consumer \<Rightarrow> Context \<Rightarrow> Channel \<Rightarrow> string \<Rightarrow> string \<Rightarrow> bool \<Rightarrow> bool \<Rightarrow> bool \<Rightarrow> bool
     \<Rightarrow> Table option \<Rightarrow> MessageHandler option
     \<Rightarrow> error option \<times> (panic + delivery_effects) list" where
  "Consumer_ConsumeWithHandler g c ctx channel queueName consumerTag autoAck exclusive noLocal noWait args handler =
     (let (deliveries, err) =
            ch_ConsumeWithContext channel ctx queueName consumerTag autoAck exclusive noLocal noWait args
      in case err of
           Some e \<Rightarrow> (Some (''failed to start consuming: '' @ e), [])
         | None \<Rightarrow>
             (None,
              map (\<lambda>delivery. Consumer_processDelivery g c ctx queueName delivery handler autoAck)
                deliveries))"

definition defaultConsumer :: "otel \<Rightarrow> Consumer" where
  "defaultConsumer g = NewDefaultConsumer g"

definition ProcessDelivery ::
  "otel \<Rightarrow> Context \<Rightarrow> string \<Rightarrow> Delivery \<Rightarrow> MessageHandler option
     \<Rightarrow> panic + (error option \<times> delivery_effects)" where
  "ProcessDelivery g ctx queueName delivery handler =
     Consumer_ProcessDelivery g (defaultConsumer g) ctx queueName delivery handler"

subsection \<open>instrumentation: Publisher\<close>

record PublisherConfig =
  pc_Tracer :: "Tracer option"
  pc_Propagator :: "Propagator option"
  pc_SpanNameFormatter :: "(string \<Rightarrow> string \<Rightarrow> string) option"
  pc_AttributeEnricher :: "(Context \<Rightarrow> string \<Rightarrow> string \<Rightarrow> Publishing \<Rightarrow> SpanStartOption list) option"

record Publisher =
  p_config :: PublisherConfig

definition defaultPublishSpanName :: "string \<Rightarrow> string \<Rightarrow> string" where
  "defaultPublishSpanName exchange routingKey =
     (if exchange \<noteq> '''' then exchange @ '' publish''
      else if routingKey \<noteq> '''' then routingKey @ '' publish''
      else ''rabbitmq publish'')"

definition NewPublisher :: "otel \<Rightarrow> PublisherConfig \<Rightarrow> Publisher" where
  "NewPublisher g config =
     (let config =
            (if pc_Tracer config = None
             then config\<lparr>pc_Tracer := Some (otel_Tracer g TracerName)\<rparr>
             else config);
          config =
            (if pc_Propagator config = None
             then config\<lparr>pc_Propagator := Some DefaultPropagator\<rparr>
             else config);
          config =
            (if pc_SpanNameFormatter config = None
             then config\<lparr>pc_SpanNameFormatter := Some defaultPublishSpanName\<rparr>
             else config)
      in \<lparr>p_config = config\<rparr>)"

definition NewDefaultPublisher :: "otel \<Rightarrow> Publisher" where
  "NewDefaultPublisher g =
     NewPublisher g \<lparr>pc_Tracer = None, pc_Propagator = None,
                     pc_SpanNameFormatter = None, pc_AttributeEnricher = None\<rparr>"

text \<open>
  The sends a publish makes on the channel. \<open>Channel.Publish\<close> takes no context;
  \<open>Channel.PublishWithDeferredConfirmWithContext\<close> takes one as its first argument.
\<close>

datatype channel_call =
  Call_Publish string string bool bool Publishing
| Call_PublishWithDeferredConfirmWithContext Context string string bool bool Publishing

record publish_effects =
  pe_span :: "Span option"
  pe_calls :: "channel_call list"

definition Publisher_Publish ::
  "otel \<Rightarrow> Publisher \<Rightarrow> Context \<Rightarrow> Channel \<Rightarrow> string \<Rightarrow> string \<Rightarrow> bool \<Rightarrow> bool \<Rightarrow> Publishing
     \<Rightarrow> panic + (error option \<times> publish_effects)" where
  "Publisher_Publish g p ctx channel exchange routingKey mandatory immediate msg =
     (case pc_SpanNameFormatter (p_config p) of
        None \<Rightarrow> Inl NilDereference
      | Some formatter \<Rightarrow>
     (let spanName = formatter exchange routingKey;
          spanOpts = [WithSpanKind SpanKindProducer];
          attrs = GetPublishAttributes exchange routingKey msg;
          spanOpts = fold (\<lambda>attr opts. opts @ [WithAttributes [attr]]) attrs spanOpts;
          spanOpts =
            (case pc_AttributeEnricher (p_config p) of
               None \<Rightarrow> spanOpts
             | Some enricher \<Rightarrow> spanOpts @ enricher ctx exchange routingKey msg)
      in (case pc_Tracer (p_config p) of
           None \<Rightarrow> Inl NilDereference
         | Some tracer \<Rightarrow>
     (let (ctx, span) = tracer ctx spanName spanOpts;
          msg = (if p_Headers msg = None then msg\<lparr>p_Headers := Some []\<rparr> else msg)
      in (case Propagator_InjectToPublishing g (pc_Propagator (p_config p)) ctx msg of
           Inl e \<Rightarrow> Inl e
         | Inr msg \<Rightarrow>
     (let err = ch_Publish channel exchange routingKey mandatory immediate msg;
          span = SafeSetSpanStatus (Some span) err
      in Inr (err,
              \<lparr>pe_span = map_option Span_End span,
               pe_calls = [Call_Publish exchange routingKey mandatory immediate msg]\<rparr>)))))))"

definition Publisher_PublishWithConfirm ::
  "otel \<Rightarrow> Publisher \<Rightarrow> Context \<Rightarrow> Channel \<Rightarrow> string \<Rightarrow> string \<Rightarrow> bool \<Rightarrow> bool \<Rightarrow> Publishing
     \<Rightarrow> panic + ((DeferredConfirmation option \<times> error option) \<times> publish_effects)" where
  "Publisher_PublishWithConfirm g p ctx channel exchange routingKey mandatory immediate msg =
     (case pc_SpanNameFormatter (p_config p) of
        None \<Rightarrow> Inl NilDereference
      | Some formatter \<Rightarrow>
     (let spanName = formatter exchange routingKey;
          spanOpts = [WithSpanKind SpanKindProducer];
          attrs = GetPublishAttributes exchange routingKey msg;
          spanOpts = fold (\<lambda>attr opts. opts @ [WithAttributes [attr]]) attrs spanOpts;
          spanOpts =
            (case pc_AttributeEnricher (p_config p) of
               None \<Rightarrow> spanOpts
             | Some enricher \<Rightarrow> spanOpts @ enricher ctx exchange routingKey msg)
      in (case pc_Tracer (p_config p) of
           None \<Rightarrow> Inl NilDereference
         | Some tracer \<Rightarrow>
     (let (ctx, span) = tracer ctx spanName spanOpts;
          msg = (if p_Headers msg = None then msg\<lparr>p_Headers := Some []\<rparr> else msg)
      in (case Propagator_InjectToPublishing g (pc_Propagator (p_config p)) ctx msg of
           Inl e \<Rightarrow> Inl e
         | Inr msg \<Rightarrow>
     (let (confirmation, err) =
            ch_PublishWithDeferredConfirmWithContext channel ctx exchange routingKey mandatory immediate msg;
          span = SafeSetSpanStatus (Some span) err
      in Inr ((confirmation, err),
              \<lparr>pe_span = map_option Span_End span,
               pe_calls =
                 [Call_PublishWithDeferredConfirmWithContext ctx exchange routingKey mandatory immediate msg]\<rparr>)))))))"

definition defaultPublisher :: "otel \<Rightarrow> Publisher" where
  "defaultPublisher g = NewDefaultPublisher g"

definition Publish ::
  "otel \<Rightarrow> Context \<Rightarrow> Channel \<Rightarrow> string \<Rightarrow> string \<Rightarrow> bool \<Rightarrow> bool \<Rightarrow> Publishing
     \<Rightarrow> panic + (error option \<times> publish_effects)" where
  "Publish g ctx channel exchange routingKey mandatory immediate msg =
     Publisher_Publish g (defaultPublisher g) ctx channel exchange routingKey mandatory immediate msg"

definition PublishWithConfirm ::
  "otel \<Rightarrow> Context \<Rightarrow> Channel \<Rightarrow> string \<Rightarrow> string \<Rightarrow> bool \<Rightarrow> bool \<Rightarrow> Publishing
     \<Rightarrow> panic + ((DeferredConfirmation option \<times> error option) \<times> publish_effects)" where
  "PublishWithConfirm g ctx channel exchange routingKey mandatory immediate msg =
     Publisher_PublishWithConfirm g (defaultPublisher g) ctx channel exchange routingKey mandatory immediate msg"

subsection \<open>Contracts of a text map propagator\<close>

text \<open>
  The propagator is the SDK's, set by the application. Two properties of it are used
  below. It is faithful when, for a context with a valid trace, extracting through any
  \<open>Get\<close> that answers each injected key with the value last set for it gives back that
  context's trace identifiers. It rejects what is not valid, for a notion \<open>valid key
  value\<close> of the values it accepts under a key, when the empty string is valid under no
  key and it returns the parent context whenever none of its fields reads a valid value.
\<close>

definition faithful_propagator :: "TextMapPropagator \<Rightarrow> bool" where
  "faithful_propagator p =
     (\<forall>ctx parent get.
        has_valid_trace ctx \<longrightarrow>
        (\<forall>k v. map_of (rev (Inject p ctx)) k = Some v \<longrightarrow> get k = v) \<longrightarrow>
        trace_ids (Extract p parent get) = trace_ids ctx)"

definition rejects_invalid :: "TextMapPropagator \<Rightarrow> (string \<Rightarrow> string \<Rightarrow> bool) \<Rightarrow> bool" where
  "rejects_invalid p valid =
     ((\<forall>k. \<not> valid k '''')
      \<and> (\<forall>ctx get. (\<forall>k \<in> set (Fields p). \<not> valid k (get k)) \<longrightarrow> Extract p ctx get = ctx))"

subsection \<open>Collaborators to run the model on\<close>

text \<open>
  A propagator that writes the trace id and the span id under two keys of their own and
  reads them back as a remote span context; a tracer that starts a child span of the
  context's trace; a broker that accepts every acknowledgment and one that refuses them.
\<close>

definition two_key_propagator :: TextMapPropagator where
  "two_key_propagator =
     \<lparr>Inject = (\<lambda>ctx.
        (case ctx_span ctx of
           None \<Rightarrow> []
         | Some sc \<Rightarrow>
             if TraceID sc \<noteq> '''' \<and> SpanID sc \<noteq> ''''
             then [(''x-trace-id'', TraceID sc), (''x-span-id'', SpanID sc)]
             else [])),
      Extract = (\<lambda>ctx get.
        if get ''x-trace-id'' \<noteq> '''' \<and> get ''x-span-id'' \<noteq> ''''
        then ctx\<lparr>ctx_span :=
               Some \<lparr>TraceID = get ''x-trace-id'', SpanID = get ''x-span-id'', Remote = True\<rparr>\<rparr>
        else ctx),
      Fields = [''x-trace-id'', ''x-span-id'']\<rparr>"

text \<open>The propagator that is installed when the application installs none: it writes
  nothing and reads nothing.\<close>

definition noop_propagator :: TextMapPropagator where
  "noop_propagator = \<lparr>Inject = (\<lambda>ctx. []), Extract = (\<lambda>ctx get. ctx), Fields = []\<rparr>"

text \<open>
  A propagator that takes an identifier only when it is made of hexadecimal digits, and
  one that marks every context it extracts into, whatever the carrier holds.
\<close>

definition is_hex_id :: "string \<Rightarrow> bool" where
  "is_hex_id s = (s \<noteq> '''' \<and> list_all (\<lambda>c. c \<in> set ''0123456789abcdef'') s)"

definition hex_propagator :: TextMapPropagator where
  "hex_propagator =
     \<lparr>Inject = (\<lambda>ctx.
        (case ctx_span ctx of
           None \<Rightarrow> []
         | Some sc \<Rightarrow>
             if is_hex_id (TraceID sc) \<and> is_hex_id (SpanID sc)
             then [(''x-trace-id'', TraceID sc), (''x-span-id'', SpanID sc)]
             else [])),
      Extract = (\<lambda>ctx get.
        if is_hex_id (get ''x-trace-id'') \<and> is_hex_id (get ''x-span-id'')
        then ctx\<lparr>ctx_span :=
               Some \<lparr>TraceID = get ''x-trace-id'', SpanID = get ''x-span-id'', Remote = True\<rparr>\<rparr>
        else ctx),
      Fields = [''x-trace-id'', ''x-span-id'']\<rparr>"

definition marking_propagator :: TextMapPropagator where
  "marking_propagator =
     \<lparr>Inject = (\<lambda>ctx. [(''x-mark'', ''1'')]),
      Extract = (\<lambda>ctx get. ctx\<lparr>ctx_values := (''extracted'', get ''x-mark'') # ctx_values ctx\<rparr>),
      Fields = [''x-mark'']\<rparr>"

definition child_tracer :: Tracer where
  "child_tracer ctx name opts =
     (ctx\<lparr>ctx_span :=
        Some \<lparr>TraceID = (case ctx_span ctx of None \<Rightarrow> ''t-new'' | Some sc \<Rightarrow> TraceID sc),
              SpanID = ''s-'' @ name, Remote = False\<rparr>\<rparr>,
      \<lparr>span_name = name, span_options = opts, span_parent = ctx, span_errors = [],
       span_status = (codes_Unset, ''''), span_ended = False\<rparr>)"

definition test_otel :: otel where
  "test_otel = \<lparr>GetTextMapPropagator = two_key_propagator, otel_Tracer = (\<lambda>name. child_tracer)\<rparr>"

definition default_otel :: otel where
  "default_otel = \<lparr>GetTextMapPropagator = noop_propagator, otel_Tracer = (\<lambda>name. child_tracer)\<rparr>"

definition hex_otel :: otel where
  "hex_otel = \<lparr>GetTextMapPropagator = hex_propagator, otel_Tracer = (\<lambda>name. child_tracer)\<rparr>"

definition marking_otel :: otel where
  "marking_otel = \<lparr>GetTextMapPropagator = marking_propagator, otel_Tracer = (\<lambda>name. child_tracer)\<rparr>"

definition context_Background :: Context where
  "context_Background = \<lparr>ctx_span = None, ctx_values = []\<rparr>"

definition traced_context :: Context where
  "traced_context =
     \<lparr>ctx_span = Some \<lparr>TraceID = ''t-7'', SpanID = ''s-3'', Remote = False\<rparr>, ctx_values = []\<rparr>"

definition accepting :: Acknowledger where
  "accepting = \<lparr>ack_reply = (\<lambda>multiple. None), nack_reply = (\<lambda>multiple requeue. None)\<rparr>"

definition refusing :: Acknowledger where
  "refusing =
     \<lparr>ack_reply = (\<lambda>multiple. Some ''channel closed''),
      nack_reply = (\<lambda>multiple requeue. Some ''channel closed'')\<rparr>"

definition delivery_from :: "Acknowledger \<Rightarrow> Table option \<Rightarrow> Delivery" where
  "delivery_from a headers =
     \<lparr>d_Acknowledger = a, d_Headers = headers, d_CorrelationId = '''', d_MessageId = '''',
      d_RoutingKey = ''order.created'', d_Body = ''{}''\<rparr>"

definition failing_handler :: MessageHandler where
  "failing_handler ctx delivery = Some ''cannot decode''"

definition succeeding_handler :: MessageHandler where
  "succeeding_handler ctx delivery = None"

definition no_config :: ConsumerConfig where
  "no_config =
     \<lparr>cc_Tracer = None, cc_Propagator = None, cc_SpanNameFormatter = None,
      cc_AttributeEnricher = None\<rparr>"

definition message_with :: "Table option \<Rightarrow> Publishing" where
  "message_with headers =
     \<lparr>p_Headers = headers, p_ContentType = ''text/plain'', p_CorrelationId = '''',
      p_MessageId = ''msg-123'', p_Body = ''Hello, World!''\<rparr>"

definition open_channel :: Channel where
  "open_channel =
     \<lparr>ch_Publish = (\<lambda>exchange key mandatory immediate msg. None),
      ch_PublishWithDeferredConfirmWithContext =
        (\<lambda>ctx exchange key mandatory immediate msg. (Some 1, None)),
      ch_ConsumeWithContext =
        (\<lambda>ctx queue consumer autoAck exclusive noLocal noWait args. ([], None))\<rparr>"

section \<open>Header carrier\<close>

lemma Keys_fold_append:
  "fold (\<lambda>(k, _) keys. keys @ [k]) t acc = acc @ map fst t"
  by (induction t arbitrary: acc) (auto split: prod.splits)

lemma HeaderCarrier_Keys_Some: "HeaderCarrier_Keys (Some t) = map fst t"
  by (simp add: HeaderCarrier_Keys_def Keys_fold_append)

lemma set_all_Some:
  "set_all kvs (Some t) = Inr (Some (fold (\<lambda>(k, v). AList.update k (VString v)) kvs t))"
  by (induction kvs arbitrary: t) (auto simp: HeaderCarrier_Set_def)

lemma fold_update_keys:
  "fst ` set (fold (\<lambda>(k, v). AList.update k (VString v)) kvs t) = fst ` set t \<union> fst ` set kvs"
proof (induction kvs arbitrary: t)
  case Nil
  show ?case by simp
next
  case (Cons kv kvs)
  obtain k v where kv: "kv = (k, v)" by (cases kv)
  have "fst ` set (AList.update k (VString v) t) = insert k (fst ` set t)"
    using dom_update [of k "VString v" t] by simp
  with Cons.IH [of "AList.update k (VString v) t"] kv show ?case by auto
qed

lemma fold_update_distinct:
  "distinct (map fst t) \<Longrightarrow>
   distinct (map fst (fold (\<lambda>(k, v). AList.update k (VString v)) kvs t))"
  by (induction kvs arbitrary: t) (auto simp: distinct_update)

text \<open>After a sequence of \<open>Set\<close> calls a key reads as its last write, or as before.\<close>

lemma fold_update_lookup:
  "map_of (fold (\<lambda>(k, v). AList.update k (VString v)) kvs t) key =
     (case map_of (rev kvs) key of Some v \<Rightarrow> Some (VString v) | None \<Rightarrow> map_of t key)"
proof (induction kvs arbitrary: t)
  case Nil
  show ?case by simp
next
  case (Cons kv kvs)
  obtain k v where kv: "kv = (k, v)" by (cases kv)
  show ?case
    using Cons.IH [of "AList.update k (VString v) t"] kv
    by (auto simp: update_conv' map_add_def split: option.splits)
qed

text \<open>
  C9. \<open>Get\<close> on a key that is absent, or whose value is not string-typed, is the empty
  string, on every carrier (the \<open>nil\<close> one too) and with no failing branch; \<open>Set\<close> on an
  allocated map returns, a following \<open>Get\<close> of the same key is the value just set, and
  the other keys read as before; \<open>Keys\<close> of a map lists exactly its keys, each once, so
  after any sequence of \<open>Set\<close> calls on an empty map its length is the number of
  distinct keys set.
\<close>

theorem HeaderCarrier_contract:
  "((\<forall>s. index_map hc key \<noteq> Some (VString s)) \<longrightarrow> HeaderCarrier_Get hc key = '''')
   \<and> (\<exists>hc'. HeaderCarrier_Set (Some t) key val = Inr hc'
          \<and> HeaderCarrier_Get hc' key = val
          \<and> (\<forall>key'. key' \<noteq> key \<longrightarrow> HeaderCarrier_Get hc' key' = HeaderCarrier_Get (Some t) key'))
   \<and> (distinct (map fst t) \<longrightarrow>
          set (HeaderCarrier_Keys (Some t)) = dom (map_of t)
          \<and> distinct (HeaderCarrier_Keys (Some t))
          \<and> length (HeaderCarrier_Keys (Some t)) = card (dom (map_of t)))
   \<and> (\<exists>hc'. set_all kvs (Some []) = Inr hc'
          \<and> set (HeaderCarrier_Keys hc') = fst ` set kvs
          \<and> length (HeaderCarrier_Keys hc') = card (fst ` set kvs))"
proof (intro conjI impI)
  assume "\<forall>s. index_map hc key \<noteq> Some (VString s)"
  then show "HeaderCarrier_Get hc key = ''''"
    by (auto simp: HeaderCarrier_Get_def split: option.splits amqp_value.splits)
next
  show "\<exists>hc'. HeaderCarrier_Set (Some t) key val = Inr hc'
          \<and> HeaderCarrier_Get hc' key = val
          \<and> (\<forall>key'. key' \<noteq> key \<longrightarrow> HeaderCarrier_Get hc' key' = HeaderCarrier_Get (Some t) key')"
    by (simp add: HeaderCarrier_Set_def HeaderCarrier_Get_def index_map_def update_conv')
next
  assume d: "distinct (map fst t)"
  show "set (HeaderCarrier_Keys (Some t)) = dom (map_of t)"
    by (simp add: HeaderCarrier_Keys_Some dom_map_of_conv_image_fst)
  show "distinct (HeaderCarrier_Keys (Some t))"
    using d by (simp add: HeaderCarrier_Keys_Some)
  show "length (HeaderCarrier_Keys (Some t)) = card (dom (map_of t))"
    using d distinct_card [of "map fst t"]
    by (simp add: HeaderCarrier_Keys_Some dom_map_of_conv_image_fst)
next
  let ?t = "fold (\<lambda>(k, v). AList.update k (VString v)) kvs []"
  have d: "distinct (map fst ?t)"
    by (rule fold_update_distinct) simp
  have k: "set (map fst ?t) = fst ` set kvs"
    using fold_update_keys [of kvs "[]"] by simp
  have "length (map fst ?t) = card (fst ` set kvs)"
    using distinct_card [OF d] k by simp
  then show "\<exists>hc'. set_all kvs (Some []) = Inr hc'
          \<and> set (HeaderCarrier_Keys hc') = fst ` set kvs
          \<and> length (HeaderCarrier_Keys hc') = card (fst ` set kvs)"
    using k by (simp add: set_all_Some HeaderCarrier_Keys_Some)
qed

theorem HeaderCarrier_contract_witness:
  "HeaderCarrier_Get (Some [(''count'', VInt 5)]) ''count'' = ''''
   \<and> HeaderCarrier_Get None ''traceparent'' = ''''
   \<and> HeaderCarrier_Set (Some [(''a'', VString ''1''), (''b'', VBool True)]) ''b'' ''2''
       = Inr (Some [(''a'', VString ''1''), (''b'', VString ''2'')])
   \<and> HeaderCarrier_Get (Some [(''a'', VString ''1''), (''b'', VString ''2'')]) ''b'' = ''2''
   \<and> length (HeaderCarrier_Keys (Some [(''a'', VString ''1''), (''b'', VBool True)])) = 2
   \<and> set_all [(''a'', ''1''), (''b'', ''2''), (''a'', ''3'')] (Some [])
       = Inr (Some [(''a'', VString ''3''), (''b'', VString ''2'')])
   \<and> length (HeaderCarrier_Keys (Some [(''a'', VString ''3''), (''b'', VString ''2'')]))
       = card (fst ` set [(''a'', ''1''), (''b'', ''2''), (''a'', ''3'')])"
  using HeaderCarrier_contract [where hc = "Some [(''count'', VInt 5)]" and key = "''count''"
      and t = "[]" and val = "''2''" and kvs = "[]"]
    HeaderCarrier_contract [where hc = None and key = "''b''"
      and t = "[(''a'', VString ''1''), (''b'', VBool True)]" and val = "''2''"
      and kvs = "[(''a'', ''1''), (''b'', ''2''), (''a'', ''3'')]"]
  by (simp add: HeaderCarrier_Get_def HeaderCarrier_Set_def HeaderCarrier_Keys_def index_map_def)

section \<open>Attribute builder\<close>

text \<open>
  C2. With a non-empty exchange the common attributes are the system, the exchange as
  destination and the kind topic, then the routing key when it is non-empty. With an
  empty exchange they are the system and the kind queue, then, when the routing key is
  non-empty, the routing key as destination and as routing key. No emitted value is empty,
  an empty routing key gives no routing-key attribute, an empty exchange with an empty
  routing key gives no destination, and the system attribute is always the first.
\<close>

theorem GetCommonAttributes_cases:
  "(exchange \<noteq> '''' \<longrightarrow>
      GetCommonAttributes exchange routingKey =
        [attribute_String MessagingSystem SystemRabbitMQ,
         attribute_String MessagingDestination exchange,
         attribute_String MessagingDestinationKind DestinationKindTopic]
        @ (if routingKey \<noteq> ''''
           then [attribute_String MessagingRabbitMQRoutingKey routingKey] else []))
   \<and> (exchange = '''' \<longrightarrow>
      GetCommonAttributes exchange routingKey =
        [attribute_String MessagingSystem SystemRabbitMQ,
         attribute_String MessagingDestinationKind DestinationKindQueue]
        @ (if routingKey \<noteq> ''''
           then [attribute_String MessagingDestination routingKey,
                 attribute_String MessagingRabbitMQRoutingKey routingKey]
           else []))
   \<and> list_all (\<lambda>kv. snd kv \<noteq> '''') (GetCommonAttributes exchange routingKey)
   \<and> (routingKey = '''' \<longrightarrow>
        MessagingRabbitMQRoutingKey \<notin> fst ` set (GetCommonAttributes exchange routingKey))
   \<and> (exchange = '''' \<and> routingKey = '''' \<longrightarrow>
        MessagingDestination \<notin> fst ` set (GetCommonAttributes exchange routingKey))
   \<and> hd (GetCommonAttributes exchange routingKey) = attribute_String MessagingSystem SystemRabbitMQ"
  by (simp add: GetCommonAttributes_def Let_def attribute_String_def internal_consts)

theorem GetCommonAttributes_cases_witness:
  "GetCommonAttributes ''orders'' ''order.created'' =
     [(''messaging.system'', ''rabbitmq''), (''messaging.destination'', ''orders''),
      (''messaging.destination_kind'', ''topic''),
      (''messaging.rabbitmq.routing_key'', ''order.created'')]
   \<and> GetCommonAttributes '''' ''order.created'' =
     [(''messaging.system'', ''rabbitmq''), (''messaging.destination_kind'', ''queue''),
      (''messaging.destination'', ''order.created''),
      (''messaging.rabbitmq.routing_key'', ''order.created'')]
   \<and> GetCommonAttributes ''orders'' '''' =
     [(''messaging.system'', ''rabbitmq''), (''messaging.destination'', ''orders''),
      (''messaging.destination_kind'', ''topic'')]
   \<and> GetCommonAttributes '''' '''' =
     [(''messaging.system'', ''rabbitmq''), (''messaging.destination_kind'', ''queue'')]"
  using GetCommonAttributes_cases [of "''orders''" "''order.created''"]
    GetCommonAttributes_cases [of "''''" "''order.created''"]
    GetCommonAttributes_cases [of "''orders''" "''''"]
    GetCommonAttributes_cases [of "''''" "''''"]
  by (simp add: attribute_String_def internal_consts)

section \<open>Propagation\<close>

lemma InjectContext_Some:
  "InjectContext g ctx (Some t) =
     Inr (Some (fold (\<lambda>(k, v). AList.update k (VString v)) (Inject (GetTextMapPropagator g) ctx) t))"
  by (simp add: InjectContext_def set_all_Some)

text \<open>On a \<open>nil\<close> map injection returns at once and leaves \<open>nil\<close>; \<open>Set\<close> is never
  called on it, where it would panic.\<close>

lemma InjectContext_nil: "InjectContext g ctx None = Inr None"
  by (simp add: InjectContext_def)

lemma HeaderCarrier_Set_nil: "HeaderCarrier_Set None key val = Inl AssignmentToNilMap"
  by (simp add: HeaderCarrier_Set_def)

lemma InjectContext_returns: "\<exists>headers'. InjectContext g ctx headers = Inr headers'"
  by (cases headers) (simp_all add: InjectContext_def set_all_Some)

lemma InjectToPublishing_result:
  "Propagator_InjectToPublishing g p ctx msg =
     Inr (msg\<lparr>p_Headers :=
            Some (fold (\<lambda>(k, v). AList.update k (VString v)) (Inject (GetTextMapPropagator g) ctx)
                   (case p_Headers msg of None \<Rightarrow> [] | Some t \<Rightarrow> t))\<rparr>)"
  by (cases "p_Headers msg") (simp_all add: Propagator_InjectToPublishing_def InjectContext_Some)

lemma index_after_sets:
  "index_map (Some (fold (\<lambda>(k, v). AList.update k (VString v)) kvs t)) key =
     (case map_of (rev kvs) key of Some v \<Rightarrow> Some (VString v) | None \<Rightarrow> index_map (Some t) key)"
  by (simp add: index_map_def fold_update_lookup split: option.splits)

lemma Get_after_sets:
  "HeaderCarrier_Get (Some (fold (\<lambda>(k, v). AList.update k (VString v)) kvs t)) key =
     (case map_of (rev kvs) key of Some v \<Rightarrow> v | None \<Rightarrow> HeaderCarrier_Get (Some t) key)"
  by (simp add: HeaderCarrier_Get_def index_after_sets split: option.splits)

lemma map_of_rev_None_iff: "map_of (rev kvs) key = None \<longleftrightarrow> key \<notin> fst ` set kvs"
  by (simp add: map_of_eq_None_iff)

lemma two_key_propagator_faithful: "faithful_propagator two_key_propagator"
  unfolding faithful_propagator_def
proof (intro allI impI)
  fix ctx parent :: Context and get :: "string \<Rightarrow> string"
  assume valid: "has_valid_trace ctx"
    and reads: "\<forall>k v. map_of (rev (Inject two_key_propagator ctx)) k = Some v \<longrightarrow> get k = v"
  from valid obtain sc where sc: "ctx_span ctx = Some sc" "TraceID sc \<noteq> ''''" "SpanID sc \<noteq> ''''"
    by (auto simp: has_valid_trace_def split: option.splits)
  then have inj: "Inject two_key_propagator ctx = [(''x-trace-id'', TraceID sc), (''x-span-id'', SpanID sc)]"
    by (simp add: two_key_propagator_def)
  have "get ''x-trace-id'' = TraceID sc" "get ''x-span-id'' = SpanID sc"
    using reads by (simp_all add: inj)
  with sc show "trace_ids (Extract two_key_propagator parent get) = trace_ids ctx"
    by (simp add: two_key_propagator_def trace_ids_def)
qed

lemma two_key_propagator_rejects: "rejects_invalid two_key_propagator (\<lambda>k s. s \<noteq> '''')"
  by (simp add: rejects_invalid_def two_key_propagator_def)

lemma hex_propagator_rejects: "rejects_invalid hex_propagator (\<lambda>k s. is_hex_id s)"
  by (simp add: rejects_invalid_def hex_propagator_def is_hex_id_def)

lemma ExtractFromDelivery_Some:
  "Propagator_ExtractFromDelivery g p ctx (Some d) = Inr (ExtractContext g ctx (d_Headers d))"
  by (simp add: Propagator_ExtractFromDelivery_def)

text \<open>
  Faithfulness is a property of the installed propagator, not of this library: the
  propagator that does nothing leaves every parent alone and carries no trace.
\<close>

lemma noop_propagator_rejects: "rejects_invalid noop_propagator (\<lambda>k s. False)"
  by (simp add: rejects_invalid_def noop_propagator_def)

lemma noop_propagator_not_faithful: "\<not> faithful_propagator noop_propagator"
proof
  assume f: "faithful_propagator noop_propagator"
  have v: "has_valid_trace traced_context"
    by (simp add: has_valid_trace_def traced_context_def)
  have "trace_ids (Extract noop_propagator context_Background (\<lambda>k. '''')) = trace_ids traced_context"
    using f [unfolded faithful_propagator_def, rule_format, of traced_context "\<lambda>k. ''''" context_Background] v
    by (simp add: noop_propagator_def)
  then show False
    by (simp add: noop_propagator_def trace_ids_def context_Background_def traced_context_def)
qed

text \<open>
  C4. \<open>InjectToPublishing\<close> returns for every message and context. The message it leaves
  differs from the given one in the header map only, and that map is allocated: when the
  given one was unset it is what injection makes of an empty map. Every entry that was
  there is still there, and it has its old value unless its key is one the propagator
  writes; every key that was not there is one the propagator writes.
\<close>

theorem InjectToPublishing_additive:
  "\<exists>msg'. Propagator_InjectToPublishing g p ctx msg = Inr msg'
     \<and> InjectToPublishing g ctx msg = Inr msg'
     \<and> msg' = msg\<lparr>p_Headers := p_Headers msg'\<rparr>
     \<and> p_Headers msg' \<noteq> None
     \<and> (p_Headers msg = None \<longrightarrow> InjectContext g ctx (Some []) = Inr (p_Headers msg'))
     \<and> (\<forall>key val. index_map (p_Headers msg) key = Some val \<longrightarrow>
           index_map (p_Headers msg') key \<noteq> None
           \<and> (key \<notin> fst ` set (Inject (GetTextMapPropagator g) ctx) \<longrightarrow>
                index_map (p_Headers msg') key = Some val))
     \<and> (\<forall>key. index_map (p_Headers msg') key \<noteq> None \<longrightarrow>
           index_map (p_Headers msg) key \<noteq> None
           \<or> key \<in> fst ` set (Inject (GetTextMapPropagator g) ctx))"
proof -
  let ?kvs = "Inject (GetTextMapPropagator g) ctx"
  let ?t = "case p_Headers msg of None \<Rightarrow> [] | Some t \<Rightarrow> t"
  let ?t' = "fold (\<lambda>(k, v). AList.update k (VString v)) ?kvs ?t"
  let ?msg' = "msg\<lparr>p_Headers := Some ?t'\<rparr>"
  have run: "Propagator_InjectToPublishing g p ctx msg = Inr ?msg'"
    by (rule InjectToPublishing_result)
  have run': "InjectToPublishing g ctx msg = Inr ?msg'"
    by (simp add: InjectToPublishing_def InjectToPublishing_result)
  have old: "index_map (p_Headers msg) key = index_map (Some ?t) key" for key
    by (cases "p_Headers msg") (simp_all add: index_map_def)
  have new: "index_map (Some ?t') key =
      (case map_of (rev ?kvs) key of Some v \<Rightarrow> Some (VString v) | None \<Rightarrow> index_map (Some ?t) key)" for key
    by (rule index_after_sets)
  have fresh: "p_Headers msg = None \<longrightarrow> InjectContext g ctx (Some []) = Inr (p_Headers ?msg')"
    by (simp add: InjectContext_Some)
  have kept: "index_map (p_Headers msg) key = Some val \<longrightarrow>
           index_map (p_Headers ?msg') key \<noteq> None
           \<and> (key \<notin> fst ` set ?kvs \<longrightarrow> index_map (p_Headers ?msg') key = Some val)" for key val
    using map_of_rev_None_iff [of ?kvs key]
    by (auto simp: old new split: option.splits)
  have added: "index_map (p_Headers ?msg') key \<noteq> None \<longrightarrow>
           index_map (p_Headers msg) key \<noteq> None \<or> key \<in> fst ` set ?kvs" for key
    using map_of_rev_None_iff [of ?kvs key]
    by (auto simp: old new split: option.splits)
  show ?thesis
    using run run' fresh kept added by (intro exI [of _ ?msg']) simp
qed

theorem InjectToPublishing_additive_witness:
  "InjectToPublishing test_otel traced_context (message_with (Some [(''existing'', VString ''value'')]))
     = Inr (message_with (Some [(''existing'', VString ''value''),
                                (''x-trace-id'', VString ''t-7''), (''x-span-id'', VString ''s-3'')]))
   \<and> InjectToPublishing test_otel traced_context (message_with None)
     = Inr (message_with (Some [(''x-trace-id'', VString ''t-7''), (''x-span-id'', VString ''s-3'')]))
   \<and> InjectToPublishing test_otel context_Background (message_with None)
     = Inr (message_with (Some []))
   \<and> index_map (Some [(''existing'', VString ''value'')]) ''existing'' = Some (VString ''value'')
   \<and> ''existing'' \<notin> fst ` set (Inject (GetTextMapPropagator test_otel) traced_context)"
  using InjectToPublishing_additive [of test_otel None traced_context
      "message_with (Some [(''existing'', VString ''value'')])"]
    InjectToPublishing_additive [of test_otel None traced_context "message_with None"]
    InjectToPublishing_additive [of test_otel None context_Background "message_with None"]
  by (simp add: InjectToPublishing_def Propagator_InjectToPublishing_def InjectContext_def
      test_otel_def two_key_propagator_def traced_context_def context_Background_def
      message_with_def HeaderCarrier_Set_def index_map_def)

text \<open>An entry under a key that the propagator writes is overwritten.\<close>

lemma InjectToPublishing_overwrites_carrier_key:
  "InjectToPublishing test_otel traced_context
     (message_with (Some [(''x-trace-id'', VString ''old''), (''existing'', VString ''value'')]))
   = Inr (message_with (Some [(''x-trace-id'', VString ''t-7''), (''existing'', VString ''value''),
                              (''x-span-id'', VString ''s-3'')]))"
  by (simp add: InjectToPublishing_def Propagator_InjectToPublishing_def InjectContext_def
      test_otel_def two_key_propagator_def traced_context_def message_with_def
      HeaderCarrier_Set_def)

text \<open>
  C3. With a faithful propagator installed and a context that carries a valid trace,
  injecting into an allocated header map returns, and extracting from the map it leaves,
  starting from any context, gives a context with the trace identifiers of the injected
  one. The same holds from a publishing to a delivery built with its headers, whether or
  not the publishing had a header map.
\<close>

theorem propagation_roundtrip:
  assumes "faithful_propagator (GetTextMapPropagator g)"
    and "has_valid_trace ctx"
  shows "(\<exists>headers'. InjectContext g ctx (Some t) = Inr headers'
            \<and> trace_ids (ExtractContext g fresh headers') = trace_ids ctx)
       \<and> (\<exists>msg' ctx'. Propagator_InjectToPublishing g p ctx msg = Inr msg'
            \<and> Propagator_ExtractFromDelivery g p' fresh
                 (Some (delivery\<lparr>d_Headers := p_Headers msg'\<rparr>)) = Inr ctx'
            \<and> trace_ids ctx' = trace_ids ctx)"
proof -
  let ?P = "GetTextMapPropagator g"
  have again: "trace_ids (ExtractContext g fresh
      (Some (fold (\<lambda>(k, v). AList.update k (VString v)) (Inject ?P ctx) t0))) = trace_ids ctx" for t0
  proof -
    let ?get = "HeaderCarrier_Get (Some (fold (\<lambda>(k, v). AList.update k (VString v)) (Inject ?P ctx) t0))"
    have "\<forall>k v. map_of (rev (Inject ?P ctx)) k = Some v \<longrightarrow> ?get k = v"
      by (simp add: Get_after_sets)
    with assms have "trace_ids (Extract ?P fresh ?get) = trace_ids ctx"
      unfolding faithful_propagator_def by blast
    then show ?thesis by (simp add: ExtractContext_def)
  qed
  have first: "\<exists>headers'. InjectContext g ctx (Some t) = Inr headers'
            \<and> trace_ids (ExtractContext g fresh headers') = trace_ids ctx"
    using again [of t] by (simp add: InjectContext_Some)
  have second: "\<exists>msg' ctx'. Propagator_InjectToPublishing g p ctx msg = Inr msg'
            \<and> Propagator_ExtractFromDelivery g p' fresh
                 (Some (delivery\<lparr>d_Headers := p_Headers msg'\<rparr>)) = Inr ctx'
            \<and> trace_ids ctx' = trace_ids ctx"
    using again [of "case p_Headers msg of None \<Rightarrow> [] | Some t \<Rightarrow> t"]
    by (simp add: InjectToPublishing_result ExtractFromDelivery_Some)
  from first second show ?thesis by (rule conjI)
qed

theorem propagation_roundtrip_witness:
  "has_valid_trace traced_context
   \<and> InjectContext test_otel traced_context (Some [(''existing'', VString ''value'')])
       = Inr (Some [(''existing'', VString ''value''),
                    (''x-trace-id'', VString ''t-7''), (''x-span-id'', VString ''s-3'')])
   \<and> trace_ids (ExtractContext test_otel context_Background
        (Some [(''existing'', VString ''value''),
               (''x-trace-id'', VString ''t-7''), (''x-span-id'', VString ''s-3'')]))
       = Some (''t-7'', ''s-3'')
   \<and> trace_ids traced_context = Some (''t-7'', ''s-3'')
   \<and> map_sum id trace_ids
        (Propagator_ExtractFromDelivery test_otel None context_Background
           (Some (delivery_from accepting
              (Some [(''x-trace-id'', VString ''t-7''), (''x-span-id'', VString ''s-3'')]))))
       = Inr (Some (''t-7'', ''s-3''))"
proof -
  have f: "faithful_propagator (GetTextMapPropagator test_otel)"
    by (simp add: test_otel_def two_key_propagator_faithful)
  have v: "has_valid_trace traced_context"
    by (simp add: has_valid_trace_def traced_context_def)
  show ?thesis
    using v propagation_roundtrip [OF f v, of "[(''existing'', VString ''value'')]"
        context_Background None "message_with None" None "delivery_from accepting None"]
    by (auto simp: InjectContext_def Propagator_InjectToPublishing_def
        Propagator_ExtractFromDelivery_def test_otel_def two_key_propagator_def
        traced_context_def message_with_def delivery_from_def HeaderCarrier_Set_def
        trace_ids_def)
qed

text \<open>
  The round trip as a law of every installation fails. With the propagator that is in
  place when the application installs none, injecting a context with a valid trace into
  an empty allocated map leaves it empty, and extracting from it gives a context with no
  trace. With a faithful propagator, injecting into a \<open>nil\<close> map leaves it \<open>nil\<close>, and
  extracting from it gives the fresh context back.
\<close>

theorem propagation_roundtrip_counterexample:
  "has_valid_trace traced_context
   \<and> trace_ids traced_context = Some (''t-7'', ''s-3'')
   \<and> InjectContext default_otel traced_context (Some []) = Inr (Some [])
   \<and> trace_ids (ExtractContext default_otel context_Background (Some [])) = None
   \<and> InjectContext test_otel traced_context None = Inr None
   \<and> trace_ids (ExtractContext test_otel context_Background None) = None"
  by (simp add: has_valid_trace_def traced_context_def trace_ids_def InjectContext_def
      ExtractContext_def default_otel_def noop_propagator_def context_Background_def)

text \<open>
  C5. On a delivery that exists, extraction returns, with no failing branch of its own:
  its result is the given context when the header map is \<open>nil\<close>, and otherwise what the
  installed propagator's \<open>Extract\<close> makes of the given context, read through \<open>Get\<close>.
  That is the given context whenever the propagator rejects what is not valid and no
  field of it holds a valid string in the header map, be the field absent, not a string,
  empty or malformed. The method and the package function agree. On a \<open>nil\<close>
  delivery the read of its header map panics.
\<close>

theorem ExtractFromDelivery_safe:
  "ExtractFromDelivery g ctx None = Inl NilDereference
   \<and> (d_Headers d = None \<longrightarrow> ExtractFromDelivery g ctx (Some d) = Inr ctx)
   \<and> (rejects_invalid (GetTextMapPropagator g) valid
        \<and> (\<forall>k \<in> set (Fields (GetTextMapPropagator g)).
              \<forall>s. index_map (d_Headers d) k = Some (VString s) \<longrightarrow> \<not> valid k s)
        \<longrightarrow> ExtractFromDelivery g ctx (Some d) = Inr ctx)
   \<and> ExtractFromDelivery g ctx delivery = Propagator_ExtractFromDelivery g p ctx delivery
   \<and> ExtractFromDelivery g ctx (Some d) =
        Inr (case d_Headers d of
               None \<Rightarrow> ctx
             | Some t \<Rightarrow> Extract (GetTextMapPropagator g) ctx (HeaderCarrier_Get (Some t)))"
proof (intro conjI impI)
  show "ExtractFromDelivery g ctx None = Inl NilDereference"
    by (simp add: ExtractFromDelivery_def Propagator_ExtractFromDelivery_def)
next
  assume "d_Headers d = None"
  then show "ExtractFromDelivery g ctx (Some d) = Inr ctx"
    by (simp add: ExtractFromDelivery_def ExtractFromDelivery_Some ExtractContext_def)
next
  let ?P = "GetTextMapPropagator g"
  assume a: "rejects_invalid ?P valid
        \<and> (\<forall>k \<in> set (Fields ?P).
              \<forall>s. index_map (d_Headers d) k = Some (VString s) \<longrightarrow> \<not> valid k s)"
  then have empty: "\<not> valid k ''''" for k
    by (simp add: rejects_invalid_def)
  have "\<not> valid k (HeaderCarrier_Get (d_Headers d) k)" if "k \<in> set (Fields ?P)" for k
  proof (cases "\<exists>s. index_map (d_Headers d) k = Some (VString s)")
    case True
    then obtain s where s: "index_map (d_Headers d) k = Some (VString s)" by blast
    with a that have "\<not> valid k s" by blast
    with s show ?thesis by (simp add: HeaderCarrier_Get_def)
  next
    case False
    then have "HeaderCarrier_Get (d_Headers d) k = ''''"
      by (auto simp: HeaderCarrier_Get_def split: option.splits amqp_value.splits)
    with empty show ?thesis by simp
  qed
  then have "\<forall>k \<in> set (Fields ?P). \<not> valid k (HeaderCarrier_Get (d_Headers d) k)"
    by blast
  with a have "Extract ?P ctx (HeaderCarrier_Get (d_Headers d)) = ctx"
    unfolding rejects_invalid_def by blast
  then show "ExtractFromDelivery g ctx (Some d) = Inr ctx"
    by (simp add: ExtractFromDelivery_def ExtractFromDelivery_Some ExtractContext_def)
next
  show "ExtractFromDelivery g ctx delivery = Propagator_ExtractFromDelivery g p ctx delivery"
    by (simp add: ExtractFromDelivery_def Propagator_ExtractFromDelivery_def)
next
  show "ExtractFromDelivery g ctx (Some d) =
        Inr (case d_Headers d of
               None \<Rightarrow> ctx
             | Some t \<Rightarrow> Extract (GetTextMapPropagator g) ctx (HeaderCarrier_Get (Some t)))"
    by (simp add: ExtractFromDelivery_def ExtractFromDelivery_Some ExtractContext_def
        split: option.splits)
qed

theorem ExtractFromDelivery_safe_witness:
  "ExtractFromDelivery hex_otel traced_context (Some (delivery_from accepting None))
     = Inr traced_context
   \<and> ExtractFromDelivery hex_otel traced_context
        (Some (delivery_from accepting (Some [(''test'', VString ''value'')])))
     = Inr traced_context
   \<and> ExtractFromDelivery hex_otel context_Background
        (Some (delivery_from accepting
           (Some [(''x-trace-id'', VString ''garbage''), (''x-span-id'', VString ''0x12'')])))
     = Inr context_Background
   \<and> ExtractFromDelivery hex_otel context_Background
        (Some (delivery_from accepting
           (Some [(''x-trace-id'', VInt 7), (''x-span-id'', VString '''')])))
     = Inr context_Background
   \<and> ExtractFromDelivery default_otel traced_context
        (Some (delivery_from accepting
           (Some [(''x-trace-id'', VString ''0af7''), (''x-span-id'', VString ''00f1'')])))
     = Inr traced_context"
proof -
  have r: "rejects_invalid (GetTextMapPropagator hex_otel) (\<lambda>k s. is_hex_id s)"
    by (simp add: hex_otel_def hex_propagator_rejects)
  have n: "rejects_invalid (GetTextMapPropagator default_otel) (\<lambda>k s. False)"
    by (simp add: default_otel_def noop_propagator_rejects)
  have f: "Fields (GetTextMapPropagator hex_otel) = [''x-trace-id'', ''x-span-id'']"
    "Fields (GetTextMapPropagator default_otel) = []"
    by (simp_all add: hex_otel_def hex_propagator_def default_otel_def noop_propagator_def)
  have g: "\<not> is_hex_id ''garbage''" "\<not> is_hex_id ''0x12''" "\<not> is_hex_id ''''"
    by (simp_all add: is_hex_id_def)
  show ?thesis
    using r n g
      ExtractFromDelivery_safe [where d = "delivery_from accepting None" and g = hex_otel
        and ctx = traced_context and valid = "\<lambda>k s. is_hex_id s"]
      ExtractFromDelivery_safe [where
        d = "delivery_from accepting (Some [(''test'', VString ''value'')])"
        and g = hex_otel and ctx = traced_context and valid = "\<lambda>k s. is_hex_id s"]
      ExtractFromDelivery_safe [where
        d = "delivery_from accepting
           (Some [(''x-trace-id'', VString ''garbage''), (''x-span-id'', VString ''0x12'')])"
        and g = hex_otel and ctx = context_Background and valid = "\<lambda>k s. is_hex_id s"]
      ExtractFromDelivery_safe [where
        d = "delivery_from accepting (Some [(''x-trace-id'', VInt 7), (''x-span-id'', VString '''')])"
        and g = hex_otel and ctx = context_Background and valid = "\<lambda>k s. is_hex_id s"]
      ExtractFromDelivery_safe [where
        d = "delivery_from accepting
           (Some [(''x-trace-id'', VString ''0af7''), (''x-span-id'', VString ''00f1'')])"
        and g = default_otel and ctx = traced_context and valid = "\<lambda>k s. False"]
    by (simp add: f delivery_from_def index_map_def)
qed

text \<open>
  Extraction as a function that never panics and always returns the given context on
  headers without valid propagation keys fails twice. On a \<open>nil\<close> delivery it panics.
  With a propagator that marks every context it extracts into, a header map that holds
  no key of the propagator at all still gives a context other than the given one.
\<close>

theorem ExtractFromDelivery_counterexample:
  "ExtractFromDelivery test_otel traced_context None = Inl NilDereference
   \<and> index_map (Some [(''test'', VString ''value'')]) ''x-mark'' = None
   \<and> ExtractFromDelivery marking_otel context_Background
        (Some (delivery_from accepting (Some [(''test'', VString ''value'')])))
     = Inr \<lparr>ctx_span = None, ctx_values = [(''extracted'', '''')]\<rparr>
   \<and> ExtractFromDelivery marking_otel context_Background
        (Some (delivery_from accepting (Some [(''test'', VString ''value'')])))
     \<noteq> Inr context_Background"
  by (simp add: ExtractFromDelivery_def Propagator_ExtractFromDelivery_def ExtractContext_def
      marking_otel_def marking_propagator_def context_Background_def delivery_from_def
      HeaderCarrier_Get_def index_map_def)

section \<open>Consumer\<close>

text \<open>A consumer built by \<open>NewConsumer\<close> has a tracer and a span-name formatter.\<close>

lemma NewConsumer_config:
  "\<exists>tracer formatter.
     cc_Tracer (c_config (NewConsumer g cfg)) = Some tracer
     \<and> cc_SpanNameFormatter (c_config (NewConsumer g cfg)) = Some formatter"
  by (cases "cc_Tracer cfg"; cases "cc_SpanNameFormatter cfg")
     (simp_all add: NewConsumer_def Let_def)

lemma WrapDelivery_NewConsumer:
  "\<exists>ctx span. Consumer_WrapDelivery g (NewConsumer g cfg) pctx q d = Inr (ctx, span)"
proof -
  obtain tracer formatter where
    "cc_Tracer (c_config (NewConsumer g cfg)) = Some tracer"
    "cc_SpanNameFormatter (c_config (NewConsumer g cfg)) = Some formatter"
    using NewConsumer_config by blast
  then show ?thesis
    by (simp add: Consumer_WrapDelivery_def ExtractFromDelivery_Some Let_def)
qed

text \<open>
  The per-delivery procedure starts the span \<open>WrapDelivery\<close> starts, with the same
  context; what follows is spelt out by the outcome of the handler and of the broker.
\<close>

lemma processDelivery_result:
  assumes "Consumer_WrapDelivery g c pctx q d = Inr (ctx, span)"
  shows "Consumer_processDelivery g c pctx q d h autoAck =
    Inr \<lparr>de_span = Some (Span_End
            (case call_handler h ctx d of
               Some e \<Rightarrow>
                 Span_SetStatus
                   (Span_RecordError
                      (if autoAck then span
                       else (case Delivery_Nack d False True of
                               Some nackErr \<Rightarrow>
                                 Span_RecordError span (''failed to nack message: '' @ nackErr)
                             | None \<Rightarrow> span))
                      e)
                   codes_Error e
             | None \<Rightarrow>
                 if autoAck then Span_SetStatus span codes_Ok ''''
                 else (case Delivery_Ack d False of
                         Some ackErr \<Rightarrow>
                           Span_SetStatus
                             (Span_RecordError
                                (Span_RecordError span (''failed to ack message: '' @ ackErr))
                                ackErr)
                             codes_Error ackErr
                       | None \<Rightarrow> Span_SetStatus span codes_Ok ''''))),
         de_acks =
           (if autoAck then []
            else (case call_handler h ctx d of
                    Some e \<Rightarrow> [NackCall False True]
                  | None \<Rightarrow> [AckCall False]))\<rparr>"
proof -
  from assms obtain formatter tracer where
    f: "cc_SpanNameFormatter (c_config c) = Some formatter"
    and t: "cc_Tracer (c_config c) = Some tracer"
    by (auto simp: Consumer_WrapDelivery_def ExtractFromDelivery_Some Let_def split: option.splits)
  let ?ctx0 = "ExtractContext g pctx (d_Headers d)"
  let ?opts = "fold (\<lambda>attr opts. opts @ [WithAttributes [attr]]) (GetConsumeAttributes q d)
                 [WithSpanKind SpanKindConsumer]"
  let ?opts' = "case cc_AttributeEnricher (c_config c) of
                  None \<Rightarrow> ?opts
                | Some enricher \<Rightarrow> ?opts @ enricher ?ctx0 q d"
  from assms f t have start: "tracer ?ctx0 (formatter q d) ?opts' = (ctx, span)"
    by (simp add: Consumer_WrapDelivery_def ExtractFromDelivery_Some Let_def)
  show ?thesis
    by (simp add: Consumer_processDelivery_def ExtractFromDelivery_Some Let_def f t start
        SafeSetSpanStatus_def split: option.splits)
qed

text \<open>
  C1. A consumer built by \<open>NewConsumer\<close> runs the per-delivery procedure to its end on
  every input. With \<open>autoAck\<close> false it issues exactly one call on the delivery: \<open>Ack\<close>
  (not multiple) when the handler, nil or not, returns no error, \<open>Nack\<close> (not multiple,
  requeue) when the handler returns an error. With \<open>autoAck\<close> true it issues none.
\<close>

theorem processDelivery_ack_policy:
  "\<exists>ctx span eff.
     Consumer_WrapDelivery g (NewConsumer g cfg) pctx q d = Inr (ctx, span)
     \<and> Consumer_processDelivery g (NewConsumer g cfg) pctx q d h autoAck = Inr eff
     \<and> (\<not> autoAck \<and> call_handler h ctx d = None \<longrightarrow>
          de_acks eff = [AckCall False]
          \<and> length (filter is_ack (de_acks eff)) = 1
          \<and> length (filter is_nack (de_acks eff)) = 0)
     \<and> (\<not> autoAck \<and> call_handler h ctx d \<noteq> None \<longrightarrow>
          de_acks eff = [NackCall False True]
          \<and> length (filter is_nack (de_acks eff)) = 1
          \<and> length (filter is_ack (de_acks eff)) = 0)
     \<and> (autoAck \<longrightarrow> de_acks eff = [])"
proof -
  obtain ctx span where
    w: "Consumer_WrapDelivery g (NewConsumer g cfg) pctx q d = Inr (ctx, span)"
    using WrapDelivery_NewConsumer by blast
  show ?thesis
    by (intro exI [of _ ctx] exI [of _ span])
       (auto simp: w processDelivery_result [OF w] split: option.splits)
qed

theorem processDelivery_ack_policy_witness:
  "map_sum id de_acks
     (Consumer_processDelivery test_otel (NewConsumer test_otel no_config) context_Background
        ''orders'' (delivery_from accepting None) (Some succeeding_handler) False)
     = Inr [AckCall False]
   \<and> map_sum id de_acks
     (Consumer_processDelivery test_otel (NewConsumer test_otel no_config) context_Background
        ''orders'' (delivery_from accepting None) None False)
     = Inr [AckCall False]
   \<and> map_sum id de_acks
     (Consumer_processDelivery test_otel (NewConsumer test_otel no_config) context_Background
        ''orders'' (delivery_from accepting None) (Some failing_handler) False)
     = Inr [NackCall False True]
   \<and> map_sum id de_acks
     (Consumer_processDelivery test_otel (NewConsumer test_otel no_config) context_Background
        ''orders'' (delivery_from accepting None) (Some failing_handler) True)
     = Inr []"
  using processDelivery_ack_policy [of test_otel no_config context_Background "''orders''"
      "delivery_from accepting None" "Some succeeding_handler" False]
    processDelivery_ack_policy [of test_otel no_config context_Background "''orders''"
      "delivery_from accepting None" None False]
    processDelivery_ack_policy [of test_otel no_config context_Background "''orders''"
      "delivery_from accepting None" "Some failing_handler" False]
    processDelivery_ack_policy [of test_otel no_config context_Background "''orders''"
      "delivery_from accepting None" "Some failing_handler" True]
  by (auto simp: call_handler_def succeeding_handler_def failing_handler_def)

text \<open>
  C6. With \<open>autoAck\<close> false the procedure ends with the span it started, changed as
  follows. When the handler succeeded and \<open>Ack\<close> fails, the span has recorded the
  wrapped ack error and then the ack error itself, and its status is the error status
  with the ack error's message. When the handler failed and \<open>Nack\<close> fails, the span has
  recorded the wrapped nack error and then the handler's error, and its status is the
  error status with the handler error's message.
\<close>

theorem processDelivery_ack_failure:
  "\<exists>ctx span eff s.
     Consumer_WrapDelivery g (NewConsumer g cfg) pctx q d = Inr (ctx, span)
     \<and> Consumer_processDelivery g (NewConsumer g cfg) pctx q d h False = Inr eff
     \<and> de_span eff = Some s
     \<and> (\<forall>ackErr. call_handler h ctx d = None \<and> Delivery_Ack d False = Some ackErr \<longrightarrow>
          span_errors s = span_errors span @ [''failed to ack message: '' @ ackErr, ackErr]
          \<and> span_status s = (codes_Error, ackErr))
     \<and> (\<forall>e nackErr. call_handler h ctx d = Some e \<and> Delivery_Nack d False True = Some nackErr \<longrightarrow>
          span_errors s = span_errors span @ [''failed to nack message: '' @ nackErr, e]
          \<and> span_status s = (codes_Error, e))"
proof -
  obtain ctx span where
    w: "Consumer_WrapDelivery g (NewConsumer g cfg) pctx q d = Inr (ctx, span)"
    using WrapDelivery_NewConsumer by blast
  show ?thesis
    by (intro exI [of _ ctx] exI [of _ span])
       (auto simp: w processDelivery_result [OF w] Span_End_def Span_SetStatus_def
          Span_RecordError_def split: option.splits)
qed

theorem processDelivery_ack_failure_witness:
  "map_sum id (map_option span_errors \<circ> de_span)
     (Consumer_processDelivery test_otel (NewConsumer test_otel no_config) context_Background
        ''orders'' (delivery_from refusing None) (Some succeeding_handler) False)
     = Inr (Some [''failed to ack message: channel closed'', ''channel closed''])
   \<and> map_sum id (map_option span_status \<circ> de_span)
     (Consumer_processDelivery test_otel (NewConsumer test_otel no_config) context_Background
        ''orders'' (delivery_from refusing None) (Some succeeding_handler) False)
     = Inr (Some (codes_Error, ''channel closed''))
   \<and> map_sum id (map_option span_errors \<circ> de_span)
     (Consumer_processDelivery test_otel (NewConsumer test_otel no_config) context_Background
        ''orders'' (delivery_from refusing None) (Some failing_handler) False)
     = Inr (Some [''failed to nack message: channel closed'', ''cannot decode''])
   \<and> map_sum id (map_option span_status \<circ> de_span)
     (Consumer_processDelivery test_otel (NewConsumer test_otel no_config) context_Background
        ''orders'' (delivery_from refusing None) (Some failing_handler) False)
     = Inr (Some (codes_Error, ''cannot decode''))"
proof -
  have w: "Consumer_WrapDelivery test_otel (NewConsumer test_otel no_config) context_Background
      ''orders'' (delivery_from refusing None)
    = Inr (child_tracer context_Background ''orders receive''
        (fold (\<lambda>attr opts. opts @ [WithAttributes [attr]])
           (GetConsumeAttributes ''orders'' (delivery_from refusing None))
           [WithSpanKind SpanKindConsumer]))"
    by (simp add: Consumer_WrapDelivery_def NewConsumer_def no_config_def Let_def test_otel_def
        defaultConsumeSpanName_def Propagator_ExtractFromDelivery_def ExtractContext_def
        delivery_from_def)
  have a: "Delivery_Ack (delivery_from refusing None) False = Some ''channel closed''"
    by (simp add: Delivery_Ack_def delivery_from_def refusing_def)
  have n: "Delivery_Nack (delivery_from refusing None) False True = Some ''channel closed''"
    by (simp add: Delivery_Nack_def delivery_from_def refusing_def)
  show ?thesis
    using processDelivery_ack_failure [of test_otel no_config context_Background "''orders''"
        "delivery_from refusing None" "Some succeeding_handler"]
      processDelivery_ack_failure [of test_otel no_config context_Background "''orders''"
        "delivery_from refusing None" "Some failing_handler"]
    by (auto simp: w a n child_tracer_def call_handler_def succeeding_handler_def
        failing_handler_def)
qed

text \<open>
  C10. \<open>ProcessDelivery\<close>, as a method of a consumer built by \<open>NewConsumer\<close> and as the
  package function on the default consumer, returns \<open>nil\<close> on every input. A handler
  error is recorded on the span, whose status is then the error status; a failed \<open>Ack\<close>
  or \<open>Nack\<close> is recorded on the span under its wrapping message.
\<close>

theorem ProcessDelivery_returns_nil:
  "\<exists>ctx span eff s.
     Consumer_WrapDelivery g (NewConsumer g cfg) pctx q d = Inr (ctx, span)
     \<and> Consumer_ProcessDelivery g (NewConsumer g cfg) pctx q d h = Inr (None, eff)
     \<and> (\<exists>eff'. ProcessDelivery g pctx q d h = Inr (None, eff'))
     \<and> de_span eff = Some s
     \<and> (\<forall>e. call_handler h ctx d = Some e \<longrightarrow>
          e \<in> set (span_errors s) \<and> span_status s = (codes_Error, e))
     \<and> (\<forall>ackErr. call_handler h ctx d = None \<and> Delivery_Ack d False = Some ackErr \<longrightarrow>
          (''failed to ack message: '' @ ackErr) \<in> set (span_errors s)
          \<and> ackErr \<in> set (span_errors s))
     \<and> (\<forall>e nackErr. call_handler h ctx d = Some e \<and> Delivery_Nack d False True = Some nackErr \<longrightarrow>
          (''failed to nack message: '' @ nackErr) \<in> set (span_errors s))"
proof -
  obtain ctx span where
    w: "Consumer_WrapDelivery g (NewConsumer g cfg) pctx q d = Inr (ctx, span)"
    using WrapDelivery_NewConsumer by blast
  obtain ctx' span' where
    w': "Consumer_WrapDelivery g (defaultConsumer g) pctx q d = Inr (ctx', span')"
    using WrapDelivery_NewConsumer
    unfolding defaultConsumer_def NewDefaultConsumer_def by blast
  have pkg: "\<exists>eff'. ProcessDelivery g pctx q d h = Inr (None, eff')"
    by (simp add: ProcessDelivery_def Consumer_ProcessDelivery_def processDelivery_result [OF w'])
  show ?thesis
    using pkg
    by (intro exI [of _ ctx] exI [of _ span])
       (auto simp: w Consumer_ProcessDelivery_def processDelivery_result [OF w] Span_End_def
          Span_SetStatus_def Span_RecordError_def split: option.splits)
qed

theorem ProcessDelivery_returns_nil_witness:
  "Consumer_ProcessDelivery test_otel (NewConsumer test_otel no_config) context_Background
     ''orders'' (delivery_from refusing None) (Some failing_handler)
     = Inr (None,
         \<lparr>de_span = Some
            \<lparr>span_name = ''orders receive'',
             span_options =
               [WithSpanKind SpanKindConsumer,
                WithAttributes [(''messaging.system'', ''rabbitmq'')],
                WithAttributes [(''messaging.destination_kind'', ''queue'')],
                WithAttributes [(''messaging.operation'', ''receive'')],
                WithAttributes [(''messaging.destination'', ''orders'')],
                WithAttributes [(''messaging.rabbitmq.routing_key'', ''order.created'')]],
             span_parent = context_Background,
             span_errors = [''failed to nack message: channel closed'', ''cannot decode''],
             span_status = (codes_Error, ''cannot decode''),
             span_ended = True\<rparr>,
          de_acks = [NackCall False True]\<rparr>)
   \<and> map_sum id fst
     (ProcessDelivery test_otel context_Background
        ''orders'' (delivery_from refusing None) (Some succeeding_handler))
     = Inr None"
proof -
  have w: "Consumer_WrapDelivery test_otel (NewConsumer test_otel no_config) context_Background
      ''orders'' (delivery_from refusing None)
    = Inr (child_tracer context_Background ''orders receive''
        (fold (\<lambda>attr opts. opts @ [WithAttributes [attr]])
           (GetConsumeAttributes ''orders'' (delivery_from refusing None))
           [WithSpanKind SpanKindConsumer]))"
    by (simp add: Consumer_WrapDelivery_def NewConsumer_def no_config_def Let_def test_otel_def
        defaultConsumeSpanName_def Propagator_ExtractFromDelivery_def ExtractContext_def
        delivery_from_def)
  have n: "Delivery_Nack (delivery_from refusing None) False True = Some ''channel closed''"
    by (simp add: Delivery_Nack_def delivery_from_def refusing_def)
  have attrs: "GetConsumeAttributes ''orders'' (delivery_from refusing None) =
      [(''messaging.system'', ''rabbitmq''), (''messaging.destination_kind'', ''queue''),
       (''messaging.operation'', ''receive''), (''messaging.destination'', ''orders''),
       (''messaging.rabbitmq.routing_key'', ''order.created'')]"
    by (simp add: GetConsumeAttributes_def Let_def attribute_String_def internal_consts
        delivery_from_def)
  have run: "Consumer_ProcessDelivery test_otel (NewConsumer test_otel no_config) context_Background
     ''orders'' (delivery_from refusing None) (Some failing_handler)
     = Inr (None,
         \<lparr>de_span = Some
            \<lparr>span_name = ''orders receive'',
             span_options =
               [WithSpanKind SpanKindConsumer,
                WithAttributes [(''messaging.system'', ''rabbitmq'')],
                WithAttributes [(''messaging.destination_kind'', ''queue'')],
                WithAttributes [(''messaging.operation'', ''receive'')],
                WithAttributes [(''messaging.destination'', ''orders'')],
                WithAttributes [(''messaging.rabbitmq.routing_key'', ''order.created'')]],
             span_parent = context_Background,
             span_errors = [''failed to nack message: channel closed'', ''cannot decode''],
             span_status = (codes_Error, ''cannot decode''),
             span_ended = True\<rparr>,
          de_acks = [NackCall False True]\<rparr>)"
    by (simp add: Consumer_ProcessDelivery_def
        processDelivery_result [OF w [unfolded child_tracer_def]] n attrs call_handler_def
        failing_handler_def Span_End_def Span_SetStatus_def Span_RecordError_def)
  show ?thesis
    using ProcessDelivery_returns_nil [of test_otel no_config context_Background "''orders''"
        "delivery_from refusing None" "Some failing_handler"]
      ProcessDelivery_returns_nil [of test_otel no_config context_Background "''orders''"
        "delivery_from refusing None" "Some succeeding_handler"]
    by (auto simp: run)
qed

text \<open>
  C7. \<open>ProcessDelivery\<close> runs the per-delivery procedure with \<open>autoAck\<close> false, so
  acknowledgment handling is on: it issues exactly one \<open>Ack\<close> (not multiple) when the
  handler returns no error and exactly one \<open>Nack\<close> (not multiple, requeue) when the
  handler returns an error.
\<close>

theorem ProcessDelivery_acknowledges:
  "\<exists>ctx span eff.
     Consumer_WrapDelivery g (NewConsumer g cfg) pctx q d = Inr (ctx, span)
     \<and> Consumer_ProcessDelivery g (NewConsumer g cfg) pctx q d h = Inr (None, eff)
     \<and> Consumer_processDelivery g (NewConsumer g cfg) pctx q d h False = Inr eff
     \<and> ProcessDelivery g pctx q d h =
         Consumer_ProcessDelivery g (NewConsumer g no_config) pctx q d h
     \<and> (call_handler h ctx d = None \<longrightarrow> de_acks eff = [AckCall False])
     \<and> (call_handler h ctx d \<noteq> None \<longrightarrow> de_acks eff = [NackCall False True])"
proof -
  obtain ctx span where
    w: "Consumer_WrapDelivery g (NewConsumer g cfg) pctx q d = Inr (ctx, span)"
    using WrapDelivery_NewConsumer by blast
  have pkg: "ProcessDelivery g pctx q d h =
      Consumer_ProcessDelivery g (NewConsumer g no_config) pctx q d h"
    by (simp add: ProcessDelivery_def defaultConsumer_def NewDefaultConsumer_def no_config_def)
  show ?thesis
    using pkg
    by (intro exI [of _ ctx] exI [of _ span])
       (auto simp: w Consumer_ProcessDelivery_def processDelivery_result [OF w]
          split: option.splits)
qed

theorem ProcessDelivery_acknowledges_witness:
  "map_sum id (de_acks \<circ> snd)
     (Consumer_ProcessDelivery test_otel (NewConsumer test_otel no_config) context_Background
        ''orders'' (delivery_from accepting None) None)
     = Inr [AckCall False]
   \<and> map_sum id (de_acks \<circ> snd)
     (Consumer_ProcessDelivery test_otel (NewConsumer test_otel no_config) context_Background
        ''orders'' (delivery_from accepting None) (Some failing_handler))
     = Inr [NackCall False True]"
  using ProcessDelivery_acknowledges [of test_otel no_config context_Background "''orders''"
      "delivery_from accepting None" None]
    ProcessDelivery_acknowledges [of test_otel no_config context_Background "''orders''"
      "delivery_from accepting None" "Some failing_handler"]
  by (auto simp: call_handler_def failing_handler_def)

text \<open>
  The claim that the single-delivery entry point issues no acknowledgment fails on a
  delivery whose handler succeeds: \<open>ProcessDelivery\<close> acknowledges it.
\<close>

theorem ProcessDelivery_no_ack_counterexample:
  "map_sum id (de_acks \<circ> snd)
     (ProcessDelivery test_otel context_Background ''orders'' (delivery_from accepting None)
        (Some succeeding_handler))
     = Inr [AckCall False]
   \<and> map_sum id (de_acks \<circ> snd)
     (ProcessDelivery test_otel context_Background ''orders'' (delivery_from accepting None)
        (Some succeeding_handler))
     \<noteq> Inr []"
  by (simp add: ProcessDelivery_def Consumer_ProcessDelivery_def Consumer_processDelivery_def
      Propagator_ExtractFromDelivery_def
      defaultConsumer_def NewDefaultConsumer_def NewConsumer_def Let_def test_otel_def
      child_tracer_def call_handler_def succeeding_handler_def Delivery_Ack_def
      delivery_from_def accepting_def SafeSetSpanStatus_def)

section \<open>Publisher\<close>

text \<open>
  C8. On a traced context, an open channel and a message with no headers, the plain
  publish makes one call, \<open>Channel.Publish\<close>, which carries the exchange, the routing
  key, the flags and the message with the injected headers, and no context. The variant
  with confirmation makes one call, \<open>Channel.PublishWithDeferredConfirmWithContext\<close>,
  whose context is the one the tracer derived.
\<close>

theorem Publish_sends_no_context:
  "map_sum id (pe_calls \<circ> snd)
     (Publish test_otel traced_context open_channel ''orders'' ''order.created'' False False
        (message_with None))
     = Inr [Call_Publish ''orders'' ''order.created'' False False
              (message_with (Some [(''x-trace-id'', VString ''t-7''),
                                   (''x-span-id'', VString ''s-orders publish'')]))]
   \<and> map_sum id (pe_calls \<circ> snd)
     (PublishWithConfirm test_otel traced_context open_channel ''orders'' ''order.created''
        False False (message_with None))
     = Inr [Call_PublishWithDeferredConfirmWithContext
              \<lparr>ctx_span = Some \<lparr>TraceID = ''t-7'', SpanID = ''s-orders publish'', Remote = False\<rparr>,
               ctx_values = []\<rparr>
              ''orders'' ''order.created'' False False
              (message_with (Some [(''x-trace-id'', VString ''t-7''),
                                   (''x-span-id'', VString ''s-orders publish'')]))]"
  by (simp add: Publish_def PublishWithConfirm_def Publisher_Publish_def
      Publisher_PublishWithConfirm_def defaultPublisher_def NewDefaultPublisher_def
      NewPublisher_def defaultPublishSpanName_def Let_def test_otel_def child_tracer_def
      traced_context_def open_channel_def message_with_def two_key_propagator_def
      Propagator_InjectToPublishing_def InjectContext_def HeaderCarrier_Set_def
      SafeSetSpanStatus_def)

end
